theory Spec2Isabelle
  imports Complex_Main
begin

section \<open>Contextual Memory Graph System: data model\<close>

text \<open>
  The three dataclasses of \<^verbatim>\<open>contextual_memory_mvp.py\<close>. Python floats are
  modelled as reals (rounding is not modelled), Python ints as \<open>int\<close>, strings as
  lists of ASCII characters (codes 0 to 127). The \<open>properties\<close> dictionary is an
  association list; the only key the code writes is \<open>contexts\<close>, with a list of
  strings. Two limits of the platform are not modelled: the interpreter's limit on the
  depth of recursion, and SQLite's limit on the length of one value (a thousand million
  bytes).
\<close>

record entity =
  e_id :: string
  e_name :: string
  e_type :: string
  e_properties :: "(string \<times> string list) list"
  e_created_at :: real
  e_last_accessed :: real
  e_access_count :: int
  e_importance_score :: real

record relationship =
  r_id :: string
  r_source_id :: string
  r_target_id :: string
  r_relation_type :: string
  r_strength :: real
  r_context :: string
  r_created_at :: real
  r_last_reinforced :: real

record memory =
  m_id :: string
  m_content :: string
  m_entities :: "string list"
  m_relationships :: "string list"
  m_timestamp :: real
  m_context_tags :: "string list"
  m_importance :: real

text \<open>
  \<open>MobileGraphStorage\<close>: the SQLite database with its three tables, each a list of
  rows in table (rowid) order. A scan without \<open>ORDER BY\<close> returns the rows in this
  order.
\<close>

record database =
  entities :: "entity list"
  relationships :: "relationship list"
  memories :: "memory list"

definition init_database :: database where
  "init_database = \<lparr>entities = [], relationships = [], memories = []\<rparr>"

text \<open>
  A cursor that executes a \<open>SELECT\<close> reads the rows and leaves the database as it
  is; \<open>INSERT OR REPLACE\<close> on a table with a primary key deletes the row that has
  the new row's key, if any, and appends the new row.
\<close>

definition execute_query :: "(database \<Rightarrow> 'a) \<Rightarrow> database \<Rightarrow> 'a \<times> database" where
  "execute_query q db = (q db, db)"

definition insert_or_replace :: "('a \<Rightarrow> string) \<Rightarrow> 'a \<Rightarrow> 'a list \<Rightarrow> 'a list" where
  "insert_or_replace key row rows = filter (\<lambda>x. key x \<noteq> key row) rows @ [row]"

text \<open>
  What the code takes from libraries outside the repository: the MD5 hex digest of
  \<open>hashlib\<close>, \<open>str\<close> of a float, and the two extraction methods of
  \<open>NLPProcessor\<close>, which run tables of regular expressions through Python's
  \<open>re\<close> engine and return lists of tuples. They are parameters of the model.
\<close>

record lib =
  md5_hexdigest :: "string \<Rightarrow> string"
  str_float :: "real \<Rightarrow> string"
  extract_entities :: "string \<Rightarrow> (string \<times> string \<times> string) list"
  extract_relationships ::
    "string \<Rightarrow> string list \<Rightarrow> (string \<times> string \<times> string \<times> string) list"

section \<open>Strings\<close>

text \<open>\<open>str.lower()\<close> and SQLite's \<open>LOWER\<close>, on ASCII.\<close>

definition lower_char :: "char \<Rightarrow> char" where
  "lower_char c =
     (case map_of (zip ''ABCDEFGHIJKLMNOPQRSTUVWXYZ'' ''abcdefghijklmnopqrstuvwxyz'') c of
        Some d \<Rightarrow> d
      | None \<Rightarrow> c)"

definition lower :: "string \<Rightarrow> string" where
  "lower s = map lower_char s"

text \<open>
  \<open>str.split()\<close> with no argument: the maximal runs of characters that are not
  whitespace (ASCII 9 to 13, 28 to 32).
\<close>

definition is_space :: "char \<Rightarrow> bool" where
  "is_space c =
     (c \<in> set [CHR 0x09, CHR 0x0A, CHR 0x0B, CHR 0x0C, CHR 0x0D,
                CHR 0x1C, CHR 0x1D, CHR 0x1E, CHR 0x1F, CHR 0x20])"

fun split_from :: "string \<Rightarrow> string \<Rightarrow> string list" where
  "split_from cur [] = (if cur = [] then [] else [cur])"
| "split_from cur (c # cs) =
     (if is_space c then (if cur = [] then split_from [] cs else cur # split_from [] cs)
      else split_from (cur @ [c]) cs)"

definition split :: "string \<Rightarrow> string list" where
  "split s = split_from [] s"

text \<open>
  SQLite's \<open>LIKE\<close>: in the pattern \<open>%\<close> stands for any run of characters,
  \<open>_\<close> for any one character, every other character for itself, upper and lower
  case letters of ASCII alike. There is no escape character unless the statement names
  one. The comparison reads the pattern and the text as C strings: each ends before its
  first character with code 0.
\<close>

definition c_string :: "string \<Rightarrow> string" where
  "c_string s = takeWhile (\<lambda>c. c \<noteq> CHR 0x00) s"

fun like_match :: "string \<Rightarrow> string \<Rightarrow> bool" where
  "like_match [] [] = True"
| "like_match [] (c # s) = False"
| "like_match (p # ps) [] = (p = CHR ''%'' \<and> like_match ps [])"
| "like_match (p # ps) (c # s) =
     (if p = CHR ''%'' then like_match ps (c # s) \<or> like_match (p # ps) s
      else (p = CHR ''_'' \<or> lower_char p = lower_char c) \<and> like_match ps s)"

definition sql_like :: "string \<Rightarrow> string \<Rightarrow> bool" where
  "sql_like pattern text = like_match (c_string pattern) (c_string text)"

text \<open>
  The exception of \<open>sqlite3\<close> that the model has. SQLite refuses a \<open>LIKE\<close>
  pattern of more than 50000 bytes (\<open>LIKE or GLOB pattern too complex\<close>) when it
  evaluates the operator, that is on the first row it tests.
\<close>

datatype error = OperationalError

definition like_pattern_limit :: nat where
  "like_pattern_limit = 50000"

section \<open>MobileGraphStorage\<close>

definition store_entity :: "entity \<Rightarrow> database \<Rightarrow> bool \<times> database" where
  "store_entity ent db = (True, db\<lparr>entities := insert_or_replace e_id ent (entities db)\<rparr>)"

definition get_entity :: "string \<Rightarrow> database \<Rightarrow> entity option \<times> database" where
  "get_entity entity_id db =
     execute_query
       (\<lambda>d. case filter (\<lambda>e. e_id e = entity_id) (entities d) of
              [] \<Rightarrow> None
            | row # _ \<Rightarrow> Some row) db"

section \<open>NLPProcessor\<close>

definition calculate_text_similarity :: "string \<Rightarrow> string \<Rightarrow> real" where
  "calculate_text_similarity text1 text2 =
     (let words1 = set (split (lower text1));
          words2 = set (split (lower text2))
      in if words1 = {} \<or> words2 = {} then 0
         else (let intersection = words1 \<inter> words2;
                   union = words1 \<union> words2
               in if union \<noteq> {} then real (card intersection) / real (card union) else 0))"

section \<open>ContextWeaver\<close>

definition generate_id :: "lib \<Rightarrow> string \<Rightarrow> string" where
  "generate_id L content = take 12 (md5_hexdigest L content)"

definition store_relationship :: "relationship \<Rightarrow> database \<Rightarrow> database" where
  "store_relationship rel db =
     db\<lparr>relationships := insert_or_replace r_id rel (relationships db)\<rparr>"

definition store_memory :: "memory \<Rightarrow> database \<Rightarrow> database" where
  "store_memory mem db = db\<lparr>memories := insert_or_replace m_id mem (memories db)\<rparr>"

definition calculate_memory_importance :: "string \<Rightarrow> string list \<Rightarrow> real" where
  "calculate_memory_importance content ents =
     (let base_score = 0.5;
          entity_boost = min (real (length ents) * 0.1) 0.3;
          length_boost = min (real (length content) / 1000) 0.2
      in base_score + entity_boost + length_boost)"

text \<open>
  The body of the first loop of \<open>weave_memory\<close> (one extracted entity), and the
  loop. \<open>current_time\<close> is the value \<open>time.time()\<close> returned at the start of
  the call.
\<close>

fun weave_entity ::
  "lib \<Rightarrow> real \<Rightarrow> string \<times> string \<times> string \<Rightarrow> database \<Rightarrow> string \<times> database" where
  "weave_entity L current_time (entity_name, entity_type, entity_context) db =
     (let entity_id = generate_id L (lower entity_name);
          (existing_entity, db1) = get_entity entity_id db
      in case existing_entity of
           Some ent \<Rightarrow>
             (entity_id,
              snd (store_entity
                     (ent\<lparr>e_last_accessed := current_time,
                          e_access_count := e_access_count ent + 1,
                          e_importance_score := e_importance_score ent + 0.1\<rparr>) db1))
         | None \<Rightarrow>
             (entity_id,
              snd (store_entity
                     \<lparr>e_id = entity_id, e_name = entity_name, e_type = entity_type,
                      e_properties = [(''contexts'', [entity_context])],
                      e_created_at = current_time, e_last_accessed = current_time,
                      e_access_count = 1, e_importance_score = 0.5\<rparr> db1)))"

fun weave_entities ::
  "lib \<Rightarrow> real \<Rightarrow> (string \<times> string \<times> string) list \<Rightarrow> string list \<Rightarrow> database
   \<Rightarrow> string list \<times> database" where
  "weave_entities L current_time [] entity_objects db = (entity_objects, db)"
| "weave_entities L current_time (x # xs) entity_objects db =
     (let (entity_id, db1) = weave_entity L current_time x db
      in weave_entities L current_time xs (entity_objects @ [entity_id]) db1)"

text \<open>The body of the second loop (one extracted relationship), and the loop.\<close>

fun weave_relationship ::
  "lib \<Rightarrow> real \<Rightarrow> string \<times> string \<times> string \<times> string \<Rightarrow> database \<Rightarrow> string \<times> database" where
  "weave_relationship L current_time (source, target, relation_type, rel_context) db =
     (let source_id = generate_id L (lower source);
          target_id = generate_id L (lower target);
          relationship_id =
            generate_id L (source_id @ ''_'' @ target_id @ ''_'' @ relation_type);
          rel = \<lparr>r_id = relationship_id, r_source_id = source_id, r_target_id = target_id,
                 r_relation_type = relation_type, r_strength = 0.7, r_context = rel_context,
                 r_created_at = current_time, r_last_reinforced = current_time\<rparr>
      in (relationship_id, store_relationship rel db))"

fun weave_relationships ::
  "lib \<Rightarrow> real \<Rightarrow> (string \<times> string \<times> string \<times> string) list \<Rightarrow> string list \<Rightarrow> database
   \<Rightarrow> string list \<times> database" where
  "weave_relationships L current_time [] relationship_objects db = (relationship_objects, db)"
| "weave_relationships L current_time (x # xs) relationship_objects db =
     (let (relationship_id, db1) = weave_relationship L current_time x db
      in weave_relationships L current_time xs (relationship_objects @ [relationship_id]) db1)"

definition weave_memory ::
  "lib \<Rightarrow> string \<Rightarrow> string list option \<Rightarrow> real \<Rightarrow> database \<Rightarrow> memory \<times> database" where
  "weave_memory L content context_tags current_time db =
     (let memory_id = generate_id L (content @ str_float L current_time);
          tags = (case context_tags of None \<Rightarrow> [] | Some ts \<Rightarrow> ts);
          extracted_entities = extract_entities L content;
          (entity_objects, db1) = weave_entities L current_time extracted_entities [] db;
          entity_names = map fst extracted_entities;
          extracted_relationships = extract_relationships L content entity_names;
          (relationship_objects, db2) =
            weave_relationships L current_time extracted_relationships [] db1;
          mem = \<lparr>m_id = memory_id, m_content = content, m_entities = entity_objects,
                 m_relationships = relationship_objects, m_timestamp = current_time,
                 m_context_tags = tags,
                 m_importance = calculate_memory_importance content entity_objects\<rparr>
      in (mem, store_memory mem db2))"

section \<open>MemoryRetriever\<close>

record scored_memory =
  sm_id :: string
  sm_content :: string
  sm_score :: real
  sm_timestamp :: real
  sm_importance :: real

text \<open>
  \<open>SELECT ... FROM memories ORDER BY importance DESC, timestamp DESC\<close>; rows that
  agree on both keys stay in table order.
\<close>

definition select_memories :: "database \<Rightarrow> memory list" where
  "select_memories db =
     sort_key (\<lambda>m. - m_importance m) (sort_key (\<lambda>m. - m_timestamp m) (memories db))"

text \<open>The relevance score the loop of \<open>find_related_memories\<close> computes for one row.\<close>

definition total_score :: "lib \<Rightarrow> string \<Rightarrow> memory \<Rightarrow> real" where
  "total_score L query row =
     (let content_similarity = calculate_text_similarity query (m_content row);
          query_entities = map fst (extract_entities L query);
          memory_entities = m_entities row;
          entity_boost = (if query_entities \<noteq> [] \<and> memory_entities \<noteq> [] then 0.2 else 0)
      in content_similarity + entity_boost + m_importance row * 0.1)"

fun score_memories ::
  "lib \<Rightarrow> string \<Rightarrow> memory list \<Rightarrow> scored_memory list \<Rightarrow> scored_memory list" where
  "score_memories L query [] scored_memories = scored_memories"
| "score_memories L query (row # rows) scored_memories =
     score_memories L query rows
       (if total_score L query row > 0.1
        then scored_memories @
          [\<lparr>sm_id = m_id row, sm_content = m_content row, sm_score = total_score L query row,
            sm_timestamp = m_timestamp row, sm_importance = m_importance row\<rparr>]
        else scored_memories)"

text \<open>
  The slice \<open>xs[:limit]\<close> of Python: the first \<open>limit\<close> elements, and for a
  negative \<open>limit\<close> all but the last \<open>- limit\<close>.
\<close>

definition slice_to :: "int \<Rightarrow> 'a list \<Rightarrow> 'a list" where
  "slice_to limit xs =
     (if 0 \<le> limit then take (nat limit) xs else take (length xs - nat (- limit)) xs)"

definition find_related_memories ::
  "lib \<Rightarrow> string \<Rightarrow> int \<Rightarrow> database \<Rightarrow> scored_memory list \<times> database" where
  "find_related_memories L query limit db =
     (let (rows, db1) = execute_query select_memories db;
          scored_memories = score_memories L query rows [];
          sorted_memories = sort_key (\<lambda>x. - sm_score x) scored_memories
      in (slice_to limit sorted_memories, db1))"

text \<open>
  The join of \<open>get_entity_network\<close>: every relationship row with the entity row of
  its source and the entity row of its target (a relationship without both is in no row
  of an inner join), where the source or the target is the given id, by strength
  descending. SQLite answers the condition on the relationship with two index searches:
  first the rows whose source is the id, then the rows whose target is the id and that
  the first search did not find, each in table order; rows of equal strength stay in
  that order. A fetched row is the tuple of the eight columns of the relationship and
  the two names; the code reads it by position.
\<close>

datatype sql_value = Text string | Real real

definition select_entity_relationships ::
  "string \<Rightarrow> database \<Rightarrow> (relationship \<times> string \<times> string) list" where
  "select_entity_relationships entity_id db =
     sort_key (\<lambda>(r, source_name, target_name). - r_strength r)
       [(r, e_name e1, e_name e2).
          r \<leftarrow> filter (\<lambda>r. r_source_id r = entity_id) (relationships db)
               @ filter (\<lambda>r. r_target_id r = entity_id \<and> r_source_id r \<noteq> entity_id)
                   (relationships db),
          e1 \<leftarrow> entities db, r_source_id r = e_id e1,
          e2 \<leftarrow> entities db, r_target_id r = e_id e2]"

fun row_tuple :: "relationship \<times> string \<times> string \<Rightarrow> sql_value list" where
  "row_tuple (r, source_name, target_name) =
     [Text (r_id r), Text (r_source_id r), Text (r_target_id r), Text (r_relation_type r),
      Real (r_strength r), Text (r_context r), Real (r_created_at r),
      Real (r_last_reinforced r), Text source_name, Text target_name]"

text \<open>
  \<open>SELECT e.name, e.type FROM entities e WHERE LOWER(e.name) LIKE LOWER(?)\<close>: the
  rows it returns when no row makes it fail, and the statement itself, which raises when
  there is a row to test and the pattern is longer than the limit.
\<close>

definition partial_matches :: "string \<Rightarrow> database \<Rightarrow> (string \<times> string) list" where
  "partial_matches pattern db =
     [(e_name e, e_type e). e \<leftarrow> entities db, sql_like (lower pattern) (lower (e_name e))]"

definition select_partial_matches ::
  "string \<Rightarrow> database \<Rightarrow> error + (string \<times> string) list" where
  "select_partial_matches pattern db =
     (if entities db \<noteq> [] \<and> like_pattern_limit < length (lower pattern)
      then Inl OperationalError
      else Inr (partial_matches pattern db))"

record rel_data =
  rd_source :: sql_value
  rd_target :: sql_value
  rd_type :: sql_value
  rd_strength :: sql_value
  rd_context :: sql_value

text \<open>
  The result dictionary. \<open>connected_entities\<close> is built as a Python set and returned
  as a list in no specified order: it is modelled as the set.
\<close>

record network =
  n_center_entity :: string
  n_relationships :: "rel_data list"
  n_connected_entities :: "sql_value set"

text \<open>The dictionary \<open>rel_data\<close> that the loop builds from one fetched row.\<close>

definition rel_data_of :: "sql_value list \<Rightarrow> rel_data" where
  "rel_data_of rel =
     \<lparr>rd_source = rel ! 7, rd_target = rel ! 8, rd_type = rel ! 3,
      rd_strength = rel ! 4, rd_context = rel ! 5\<rparr>"

fun add_rows :: "sql_value list list \<Rightarrow> network \<Rightarrow> network" where
  "add_rows [] net = net"
| "add_rows (rel # rels) net =
     (let rd = rel_data_of rel
      in add_rows rels
           (net\<lparr>n_relationships := n_relationships net @ [rd],
                n_connected_entities :=
                  insert (rel ! 8) (insert (rel ! 7) (n_connected_entities net))\<rparr>))"

text \<open>
  \<open>get_entity_network\<close> returns the network, or the exception that the second
  \<open>SELECT\<close> raised and nothing in the method catches (\<open>Inl\<close>), and in both
  cases the database.
\<close>

function get_entity_network ::
  "lib \<Rightarrow> string \<Rightarrow> int \<Rightarrow> database \<Rightarrow> (error + network) \<times> database" where
  "get_entity_network L entity_name depth db =
     (let entity_id = take 12 (md5_hexdigest L (lower entity_name));
          (rels, db1) = execute_query (select_entity_relationships entity_id) db;
          net = add_rows (map row_tuple rels)
                  \<lparr>n_center_entity = entity_name, n_relationships = [],
                   n_connected_entities = {}\<rparr>
      in if rels = [] then
           (let (fetched, db2) =
                  execute_query (select_partial_matches (''%'' @ lower entity_name @ ''%'')) db1
            in case fetched of
                 Inl e \<Rightarrow> (Inl e, db2)
               | Inr matches \<Rightarrow>
                   (case matches of
                      [] \<Rightarrow> (Inr net, db2)
                    | m # _ \<Rightarrow>
                        if lower (fst m) \<noteq> lower entity_name
                        then get_entity_network L (fst m) depth db2
                        else (Inr net, db2)))
         else (Inr net, db1))"
  by pat_completeness auto

section \<open>ContextualMemorySystem\<close>

definition add_memory ::
  "lib \<Rightarrow> string \<Rightarrow> string list option \<Rightarrow> real \<Rightarrow> database \<Rightarrow> string \<times> database" where
  "add_memory L content context_tags current_time db =
     (let (mem, db1) = weave_memory L content context_tags current_time db
      in (''Memory stored with ID: '' @ m_id mem, db1))"

definition query_memory ::
  "lib \<Rightarrow> string \<Rightarrow> int \<Rightarrow> database \<Rightarrow> scored_memory list \<times> database" where
  "query_memory L query limit db = find_related_memories L query limit db"

definition explore_entity ::
  "lib \<Rightarrow> string \<Rightarrow> database \<Rightarrow> (error + network) \<times> database" where
  "explore_entity L entity_name db = get_entity_network L entity_name 2 db"

section \<open>Notions used in the statements\<close>

text \<open>
  The databases the system can be in: the empty one that \<open>_init_database\<close> creates,
  and what the operations of \<open>ContextualMemorySystem\<close> leave.
\<close>

inductive reachable :: "lib \<Rightarrow> database \<Rightarrow> bool" for L :: lib where
  reachable_init: "reachable L init_database"
| reachable_add: "reachable L db \<Longrightarrow> reachable L (snd (add_memory L content tags t db))"
| reachable_query: "reachable L db \<Longrightarrow> reachable L (snd (query_memory L query limit db))"
| reachable_explore: "reachable L db \<Longrightarrow> reachable L (snd (explore_entity L entity_name db))"

text \<open>
  The name that a call of \<open>get_entity_network\<close> passes to its recursive call, if it
  makes one: there is no direct relationship, the second \<open>SELECT\<close> does not raise,
  the pattern has a match, and the first match differs from the name when both are in
  lower case.
\<close>

definition fallback_target :: "lib \<Rightarrow> database \<Rightarrow> string \<Rightarrow> string option" where
  "fallback_target L db entity_name =
     (if select_entity_relationships (take 12 (md5_hexdigest L (lower entity_name))) db = []
      then (case select_partial_matches (''%'' @ lower entity_name @ ''%'') db of
              Inl e \<Rightarrow> None
            | Inr matches \<Rightarrow>
                (case matches of
                   [] \<Rightarrow> None
                 | m # _ \<Rightarrow> if lower (fst m) \<noteq> lower entity_name then Some (fst m) else None))
      else None)"

text \<open>Whether the pattern built from a name matches the name of an entity row.\<close>

definition name_like :: "string \<Rightarrow> entity \<Rightarrow> bool" where
  "name_like entity_name e =
     sql_like (lower (''%'' @ lower entity_name @ ''%'')) (lower (e_name e))"

text \<open>
  A rank of a name in a database that every recursive call lowers: twice the position
  of the first entity row the pattern matches, plus one when the call goes on to that
  row's name.
\<close>

definition fallback_rank :: "database \<Rightarrow> string \<Rightarrow> nat" where
  "fallback_rank db entity_name =
     (case partial_matches (''%'' @ lower entity_name @ ''%'') db of
        [] \<Rightarrow> 0
      | m # _ \<Rightarrow>
          2 * length (takeWhile (\<lambda>e. \<not> name_like entity_name e) (entities db))
          + (if lower (fst m) \<noteq> lower entity_name then 1 else 0))"

text \<open>
  A string that \<open>LIKE\<close> reads as it is written: without the two wildcard
  characters and without the character with code 0. And the substring test
  (\<open>p in s\<close> of Python).
\<close>

definition wildcard_free :: "string \<Rightarrow> bool" where
  "wildcard_free s =
     (CHR ''%'' \<notin> set s \<and> CHR ''_'' \<notin> set s \<and> CHR 0x00 \<notin> set s)"

fun starts_with :: "string \<Rightarrow> string \<Rightarrow> bool" where
  "starts_with [] s = True"
| "starts_with (p # ps) [] = False"
| "starts_with (p # ps) (c # s) = (p = c \<and> starts_with ps s)"

fun contains :: "string \<Rightarrow> string \<Rightarrow> bool" where
  "contains p [] = (p = [])"
| "contains p (c # s) = (starts_with p (c # s) \<or> contains p s)"

text \<open>
  The relationship rows whose source or target is the given id, and the entity rows
  whose name contains the given name, both in lower case.
\<close>

definition incident_relationships :: "string \<Rightarrow> database \<Rightarrow> relationship list" where
  "incident_relationships entity_id db =
     filter (\<lambda>r. r_source_id r = entity_id \<or> r_target_id r = entity_id) (relationships db)"

definition substring_matches :: "string \<Rightarrow> database \<Rightarrow> entity list" where
  "substring_matches entity_name db =
     filter (\<lambda>e. contains (lower entity_name) (lower (e_name e))) (entities db)"

text \<open>
  Two properties of a database that every operation keeps: the entity rows have
  different ids and each id is the digest of the row's name in lower case; every
  relationship row has strength 0.7.
\<close>

definition entity_table_ok :: "lib \<Rightarrow> database \<Rightarrow> bool" where
  "entity_table_ok L db =
     (distinct (map e_id (entities db))
      \<and> list_all (\<lambda>e. e_id e = generate_id L (lower (e_name e))) (entities db))"

definition strengths_ok :: "database \<Rightarrow> bool" where
  "strengths_ok db = list_all (\<lambda>r. r_strength r = 0.7) (relationships db)"

text \<open>
  The dictionary that \<open>find_related_memories\<close> builds for a memory row, and the
  candidates of a query: the dictionaries of the rows that score above 0.1, in the
  order of the scan.
\<close>

definition scored_of :: "lib \<Rightarrow> string \<Rightarrow> memory \<Rightarrow> scored_memory" where
  "scored_of L query row =
     \<lparr>sm_id = m_id row, sm_content = m_content row, sm_score = total_score L query row,
      sm_timestamp = m_timestamp row, sm_importance = m_importance row\<rparr>"


section \<open>Example data\<close>

text \<open>
  Values for the library parameters, used in the examples below. The digest is list
  reversal (one-to-one, so that different names get different ids). The extraction
  results are listed for three texts: they are what the pattern tables of
  \<open>NLPProcessor\<close> match in them (the patterns for persons are applied without
  regard to case, so any two adjacent words of letters count as a person).
  \<open>db_google\<close> is the database after one call of \<open>add_memory\<close> at time 1,
  \<open>db_two\<close> after a second call at time 2.
\<close>

definition demo_lib :: lib where
  "demo_lib =
     \<lparr>md5_hexdigest = rev,
      str_float = (\<lambda>t. if t = 1 then ''1.0'' else if t = 2 then ''2.0'' else ''0.0''),
      extract_entities = (\<lambda>text.
        if text = ''John works at Google''
        then [(''John'', ''PERSON'', text), (''John works'', ''PERSON'', text),
              (''at Google'', ''PERSON'', text), (''Google'', ''ORGANIZATION'', text)]
        else if text = ''John works at Initech''
        then [(''John'', ''PERSON'', text), (''John works'', ''PERSON'', text),
              (''at Initech'', ''PERSON'', text)]
        else if text = ''John works''
        then [(''John'', ''PERSON'', text), (''John works'', ''PERSON'', text)]
        else []),
      extract_relationships = (\<lambda>text names.
        if text = ''John works at Google'' then [(''John'', ''Google'', ''WORKS_AT'', text)]
        else if text = ''John works at Initech'' then [(''John'', ''Initech'', ''WORKS_AT'', text)]
        else [])\<rparr>"

definition db_google :: database where
  "db_google = snd (add_memory demo_lib ''John works at Google'' None 1 init_database)"

definition db_two :: database where
  "db_two = snd (add_memory demo_lib ''John works at Initech'' None 2 db_google)"

section \<open>Strings and patterns: lemmas\<close>

lemma lower_char_idem [simp]: "lower_char (lower_char c) = lower_char c"
  by (simp add: lower_char_def)

lemma lower_idem [simp]: "lower (lower s) = lower s"
  by (simp add: lower_def)

lemma lower_append [simp]: "lower (a @ b) = lower a @ lower b"
  by (simp add: lower_def)

lemma lower_Nil [simp]: "lower [] = []"
  by (simp add: lower_def)

lemma lower_Cons [simp]: "lower (c # s) = lower_char c # lower s"
  by (simp add: lower_def)

lemma length_lower [simp]: "length (lower s) = length s"
  by (simp add: lower_def)

lemma lower_char_percent [simp]: "lower_char (CHR ''%'') = CHR ''%''"
  by (simp add: lower_char_def)

lemma lower_char_eq_wildcard [simp]:
  "(lower_char c = CHR ''%'') = (c = CHR ''%'')"
  "(lower_char c = CHR ''_'') = (c = CHR ''_'')"
  "(lower_char c = CHR 0x00) = (c = CHR 0x00)"
  by (auto simp add: lower_char_def)

lemma nul_in_lower [simp]: "(CHR 0x00 \<in> set (lower p)) = (CHR 0x00 \<in> set p)"
proof (induction p)
  case Nil
  show ?case by simp
next
  case (Cons a p)
  have "(CHR 0x00 = lower_char a) = (CHR 0x00 = a)"
    using lower_char_eq_wildcard(3) [of a] by (simp only: eq_commute [of "CHR 0x00"])
  with Cons show ?case by simp
qed

lemma c_string_lower: "c_string (lower s) = lower (c_string s)"
  by (simp add: c_string_def lower_def takeWhile_map comp_def)

lemma c_string_idem [simp]: "c_string (c_string s) = c_string s"
  by (simp add: c_string_def)

lemma c_string_nul_free: "CHR 0x00 \<notin> set s \<Longrightarrow> c_string s = s"
  by (auto simp: c_string_def takeWhile_eq_all_conv)

lemma c_string_pattern:
  "c_string (CHR ''%'' # s @ ''%'') =
     (if CHR 0x00 \<in> set s then CHR ''%'' # c_string s else CHR ''%'' # s @ ''%'')"
proof (cases "CHR 0x00 \<in> set s")
  case True
  then have "takeWhile (\<lambda>c. c \<noteq> CHR 0x00) (s @ ''%'') = takeWhile (\<lambda>c. c \<noteq> CHR 0x00) s"
    by (intro takeWhile_append1 [of "CHR 0x00"]) auto
  with True show ?thesis by (simp add: c_string_def)
next
  case False
  then have "takeWhile (\<lambda>c. c \<noteq> CHR 0x00) (s @ ''%'')
               = s @ takeWhile (\<lambda>c. c \<noteq> CHR 0x00) ''%''"
    by (intro takeWhile_append2) auto
  with False show ?thesis by (simp add: c_string_def)
qed

lemma concat_map_if:
  "concat (map (\<lambda>e. if P e then [f e] else []) xs) = map f (filter P xs)"
  by (induction xs) auto

lemma like_match_percent_Cons: "like_match ps s \<Longrightarrow> like_match (CHR ''%'' # ps) s"
  by (cases s) auto

lemma like_match_self: "like_match p p"
  by (induction p) (auto simp: like_match_percent_Cons)

lemma like_match_append_percent: "like_match p s \<Longrightarrow> like_match (p @ ''%'') s"
  by (induction p s rule: like_match.induct) auto

lemma sql_like_contains_self: "sql_like (CHR ''%'' # lower q @ ''%'') (lower q)"
proof (cases "CHR 0x00 \<in> set (lower q)")
  case True
  have "like_match (CHR ''%'' # c_string (lower q)) (c_string (lower q))"
    by (rule like_match_percent_Cons) (rule like_match_self)
  with True show ?thesis by (simp add: sql_like_def c_string_pattern)
next
  case False
  have "like_match (lower q @ ''%'') (lower q)"
    by (rule like_match_append_percent) (rule like_match_self)
  then have "like_match (CHR ''%'' # lower q @ ''%'') (lower q)"
    by (rule like_match_percent_Cons)
  with False show ?thesis by (simp add: sql_like_def c_string_pattern c_string_nul_free)
qed

section \<open>The fallback of the entity network ends\<close>

lemma partial_matches_filter:
  "partial_matches (CHR ''%'' # lower q @ ''%'') db =
     map (\<lambda>e. (e_name e, e_type e)) (filter (name_like q) (entities db))"
  unfolding partial_matches_def name_like_def
  by (simp add: concat_map_if)

lemma select_partial_matches_Inr:
  "select_partial_matches pattern db = Inr ms \<Longrightarrow> partial_matches pattern db = ms"
  by (simp add: select_partial_matches_def split: if_splits)

lemma filter_Cons_first:
  "filter P xs = x # ys \<Longrightarrow>
     length (takeWhile (\<lambda>e. \<not> P e) xs) < length xs \<and>
     xs ! length (takeWhile (\<lambda>e. \<not> P e) xs) = x"
  by (induction xs) (auto split: if_splits)

lemma takeWhile_le_match:
  "i < length xs \<Longrightarrow> P (xs ! i) \<Longrightarrow> length (takeWhile (\<lambda>e. \<not> P e) xs) \<le> i"
  by (induction xs arbitrary: i) (auto simp: less_Suc_eq_0_disj)

lemma fallback_rank_decreases:
  assumes m: "partial_matches (CHR ''%'' # lower q @ ''%'') db = m # ms"
      and ne: "lower (fst m) \<noteq> lower q"
  shows "fallback_rank db (fst m) < fallback_rank db q"
proof -
  let ?es = "entities db"
  let ?i = "length (takeWhile (\<lambda>e. \<not> name_like q e) ?es)"
  let ?j = "length (takeWhile (\<lambda>e. \<not> name_like (fst m) e) ?es)"
  from m obtain x ys where f: "filter (name_like q) ?es = x # ys"
    and mx: "m = (e_name x, e_type x)"
    by (auto simp: partial_matches_filter map_eq_Cons_conv)
  from filter_Cons_first [OF f] have i: "?i < length ?es" "?es ! ?i = x" by auto
  have rq: "fallback_rank db q = 2 * ?i + 1"
    using m ne by (simp add: fallback_rank_def)
  have self: "name_like (fst m) x"
    using mx by (simp add: name_like_def sql_like_contains_self)
  have ji: "?j \<le> ?i"
    using takeWhile_le_match [of ?i ?es "name_like (fst m)"] i self by simp
  from self i have "filter (name_like (fst m)) ?es \<noteq> []"
    by (metis filter_empty_conv nth_mem)
  then obtain x' ys' where f': "filter (name_like (fst m)) ?es = x' # ys'"
    by (cases "filter (name_like (fst m)) ?es") auto
  from filter_Cons_first [OF f'] have j: "?es ! ?j = x'" by auto
  have m': "partial_matches (CHR ''%'' # lower (fst m) @ ''%'') db
              = (e_name x', e_type x') # map (\<lambda>e. (e_name e, e_type e)) ys'"
    by (simp add: partial_matches_filter f')
  show ?thesis
  proof (cases "?j = ?i")
    case True
    with i j have "x' = x" by simp
    then have "fallback_rank db (fst m) = 2 * ?i"
      using m' mx True by (simp add: fallback_rank_def)
    with rq show ?thesis by simp
  next
    case False
    with ji have "?j < ?i" by simp
    moreover have "fallback_rank db (fst m) \<le> 2 * ?j + 1"
      using m' by (simp add: fallback_rank_def)
    ultimately show ?thesis using rq by simp
  qed
qed

termination get_entity_network
  apply (relation "measure (\<lambda>(L, entity_name, depth, db). fallback_rank db entity_name)")
   apply simp
  apply (simp add: execute_query_def)
  apply (auto dest!: sym [of "Inr _" "select_partial_matches _ _"] select_partial_matches_Inr
          dest: fallback_rank_decreases)
  done

declare get_entity_network.simps [simp del]

lemma get_entity_network_unfold:
  "get_entity_network L q depth db =
     (case fallback_target L db q of
        Some q' \<Rightarrow> get_entity_network L q' depth db
      | None \<Rightarrow>
          (if select_entity_relationships (take 12 (md5_hexdigest L (lower q))) db = []
           then (case select_partial_matches (''%'' @ lower q @ ''%'') db of
                   Inl e \<Rightarrow> Inl e
                 | Inr matches \<Rightarrow>
                     Inr \<lparr>n_center_entity = q, n_relationships = [],
                          n_connected_entities = {}\<rparr>)
           else Inr (add_rows (map row_tuple
                       (select_entity_relationships (take 12 (md5_hexdigest L (lower q))) db))
                     \<lparr>n_center_entity = q, n_relationships = [],
                      n_connected_entities = {}\<rparr>), db))"
  by (subst get_entity_network.simps)
     (simp add: fallback_target_def execute_query_def Let_def split: list.splits sum.splits)

lemma get_entity_network_db: "snd (get_entity_network L q depth db) = db"
  by (induction L q depth db rule: get_entity_network.induct)
     (subst get_entity_network.simps,
      auto simp: execute_query_def Let_def split: list.splits prod.splits sum.splits)

lemma fallback_target_cases:
  assumes "fallback_target L db q = Some q'"
  obtains m ms where "partial_matches (CHR ''%'' # lower q @ ''%'') db = m # ms"
    and "q' = fst m" and "lower (fst m) \<noteq> lower q"
  using assms
  by (auto simp: fallback_target_def select_partial_matches_def
        split: if_splits list.splits sum.splits)

lemma fallback_target_rank:
  "fallback_target L db q = Some q' \<Longrightarrow> fallback_rank db q' < fallback_rank db q"
  by (erule fallback_target_cases) (auto dest: fallback_rank_decreases)

lemma fallback_rank_bound: "fallback_rank db q \<le> 2 * length (entities db)"
proof (cases "partial_matches (CHR ''%'' # lower q @ ''%'') db")
  case Nil
  then show ?thesis by (simp add: fallback_rank_def)
next
  case (Cons m ms)
  then obtain x ys where f: "filter (name_like q) (entities db) = x # ys"
    by (auto simp: partial_matches_filter map_eq_Cons_conv)
  from filter_Cons_first [OF f]
  have "length (takeWhile (\<lambda>e. \<not> name_like q e) (entities db)) < length (entities db)" by simp
  then show ?thesis using Cons by (simp add: fallback_rank_def)
qed

lemma starts_with_like:
  "wildcard_free p \<Longrightarrow> like_match (lower p @ ''%'') (lower s) = starts_with (lower p) (lower s)"
proof (induction p arbitrary: s)
  case Nil
  show ?case by (induction s) auto
next
  case (Cons a p)
  then have wf: "wildcard_free p" and a: "a \<noteq> CHR ''%''" "a \<noteq> CHR ''_''"
    by (auto simp: wildcard_free_def)
  show ?case
  proof (cases s)
    case Nil
    then show ?thesis using a by simp
  next
    case (Cons c t)
    then show ?thesis using a Cons.IH [OF wf, of t] by auto
  qed
qed

lemma like_match_contains:
  assumes "wildcard_free p"
  shows "like_match (CHR ''%'' # lower p @ ''%'') (lower s) = contains (lower p) (lower s)"
proof (induction s)
  case Nil
  have "like_match (lower p @ ''%'') [] = (lower p = [])"
    using assms by (cases p) (auto simp: wildcard_free_def)
  then show ?case by simp
next
  case (Cons c t)
  have "like_match (lower p @ ''%'') (lower (c # t)) = starts_with (lower p) (lower (c # t))"
    by (rule starts_with_like [OF assms])
  with Cons show ?case by simp
qed

lemma contains_like:
  assumes "wildcard_free p"
  shows "sql_like (CHR ''%'' # lower p @ ''%'') (lower s) = contains (lower p) (lower (c_string s))"
proof -
  from assms have "CHR 0x00 \<notin> set (lower p)"
    by (simp add: wildcard_free_def)
  then have "c_string (CHR ''%'' # lower p @ ''%'') = CHR ''%'' # lower p @ ''%''"
    by (simp add: c_string_pattern)
  then show ?thesis
    by (simp add: sql_like_def c_string_lower like_match_contains [OF assms])
qed

lemma starts_with_append: "starts_with p a \<Longrightarrow> starts_with p (a @ b)"
  by (induction p a rule: starts_with.induct) auto

lemma contains_Nil [simp]: "contains [] s"
  by (cases s) auto

lemma contains_append: "contains p a \<Longrightarrow> contains p (a @ b)"
  by (induction a) (auto dest: starts_with_append [where b = b])

lemma contains_c_string: "contains p (lower (c_string s)) \<Longrightarrow> contains p (lower s)"
proof -
  assume c: "contains p (lower (c_string s))"
  have "s = c_string s @ dropWhile (\<lambda>c. c \<noteq> CHR 0x00) s"
    by (simp add: c_string_def)
  then have "lower s = lower (c_string s) @ lower (dropWhile (\<lambda>c. c \<noteq> CHR 0x00) s)"
    by (metis lower_append)
  with contains_append [OF c] show ?thesis by simp
qed

lemma starts_with_length: "starts_with p s \<Longrightarrow> length p \<le> length s"
  by (induction p s rule: starts_with.induct) auto

lemma starts_with_same_length: "starts_with p s \<Longrightarrow> length p = length s \<Longrightarrow> p = s"
  by (induction p s rule: starts_with.induct) auto

lemma contains_length: "contains p s \<Longrightarrow> length p \<le> length s"
  by (induction s) (auto dest: starts_with_length)

lemma contains_same_length: "contains p s \<Longrightarrow> length p = length s \<Longrightarrow> p = s"
proof (induction s)
  case Nil then show ?case by simp
next
  case (Cons c t)
  from Cons.prems have "\<not> contains p t"
    using contains_length [of p t] by auto
  with Cons.prems show ?case by (auto dest: starts_with_same_length)
qed

lemma fallback_target_match:
  assumes "fallback_target L db q = Some q'"
  shows "q' \<in> e_name ` set (entities db)"
    and "sql_like (lower (''%'' @ lower q @ ''%'')) (lower q')"
    and "lower q' \<noteq> lower q"
proof -
  from assms obtain m ms where m: "partial_matches (CHR ''%'' # lower q @ ''%'') db = m # ms"
    and q': "q' = fst m" and ne: "lower (fst m) \<noteq> lower q"
    by (rule fallback_target_cases)
  from m obtain x ys where f: "filter (name_like q) (entities db) = x # ys"
    and mx: "m = (e_name x, e_type x)"
    by (auto simp: partial_matches_filter map_eq_Cons_conv)
  from f have "x \<in> set (filter (name_like q) (entities db))" by simp
  then have x: "x \<in> set (entities db)" "name_like q x" by auto
  show "q' \<in> e_name ` set (entities db)" using x q' mx by auto
  show "sql_like (lower (''%'' @ lower q @ ''%'')) (lower q')"
    using x q' mx by (simp add: name_like_def)
  show "lower q' \<noteq> lower q" using ne q' by simp
qed

section \<open>The example databases\<close>

lemmas eval_defs =
  add_memory_def weave_memory_def demo_lib_def init_database_def
  generate_id_def get_entity_def execute_query_def store_entity_def insert_or_replace_def
  store_relationship_def store_memory_def lower_def lower_char_def Let_def
  calculate_memory_importance_def

lemma db_google_eq:
  "db_google =
    \<lparr>entities =
       [\<lparr>e_id = ''nhoj'', e_name = ''John'', e_type = ''PERSON'',
         e_properties = [(''contexts'', [''John works at Google''])],
         e_created_at = 1, e_last_accessed = 1, e_access_count = 1, e_importance_score = 0.5\<rparr>,
        \<lparr>e_id = ''skrow nhoj'', e_name = ''John works'', e_type = ''PERSON'',
         e_properties = [(''contexts'', [''John works at Google''])],
         e_created_at = 1, e_last_accessed = 1, e_access_count = 1, e_importance_score = 0.5\<rparr>,
        \<lparr>e_id = ''elgoog ta'', e_name = ''at Google'', e_type = ''PERSON'',
         e_properties = [(''contexts'', [''John works at Google''])],
         e_created_at = 1, e_last_accessed = 1, e_access_count = 1, e_importance_score = 0.5\<rparr>,
        \<lparr>e_id = ''elgoog'', e_name = ''Google'', e_type = ''ORGANIZATION'',
         e_properties = [(''contexts'', [''John works at Google''])],
         e_created_at = 1, e_last_accessed = 1, e_access_count = 1, e_importance_score = 0.5\<rparr>],
     relationships =
       [\<lparr>r_id = ''TA_SKROW_goo'', r_source_id = ''nhoj'', r_target_id = ''elgoog'',
         r_relation_type = ''WORKS_AT'', r_strength = 0.7, r_context = ''John works at Google'',
         r_created_at = 1, r_last_reinforced = 1\<rparr>],
     memories =
       [\<lparr>m_id = ''0.1elgooG ta'', m_content = ''John works at Google'',
         m_entities = [''nhoj'', ''skrow nhoj'', ''elgoog ta'', ''elgoog''],
         m_relationships = [''TA_SKROW_goo''], m_timestamp = 1, m_context_tags = [],
         m_importance = 0.82\<rparr>]\<rparr>"
  unfolding db_google_def by (simp add: eval_defs)

lemma db_two_eq:
  "db_two =
    \<lparr>entities =
       [\<lparr>e_id = ''elgoog ta'', e_name = ''at Google'', e_type = ''PERSON'',
         e_properties = [(''contexts'', [''John works at Google''])],
         e_created_at = 1, e_last_accessed = 1, e_access_count = 1, e_importance_score = 0.5\<rparr>,
        \<lparr>e_id = ''elgoog'', e_name = ''Google'', e_type = ''ORGANIZATION'',
         e_properties = [(''contexts'', [''John works at Google''])],
         e_created_at = 1, e_last_accessed = 1, e_access_count = 1, e_importance_score = 0.5\<rparr>,
        \<lparr>e_id = ''nhoj'', e_name = ''John'', e_type = ''PERSON'',
         e_properties = [(''contexts'', [''John works at Google''])],
         e_created_at = 1, e_last_accessed = 2, e_access_count = 2, e_importance_score = 0.6\<rparr>,
        \<lparr>e_id = ''skrow nhoj'', e_name = ''John works'', e_type = ''PERSON'',
         e_properties = [(''contexts'', [''John works at Google''])],
         e_created_at = 1, e_last_accessed = 2, e_access_count = 2, e_importance_score = 0.6\<rparr>,
        \<lparr>e_id = ''hcetini ta'', e_name = ''at Initech'', e_type = ''PERSON'',
         e_properties = [(''contexts'', [''John works at Initech''])],
         e_created_at = 2, e_last_accessed = 2, e_access_count = 1, e_importance_score = 0.5\<rparr>],
     relationships =
       [\<lparr>r_id = ''TA_SKROW_goo'', r_source_id = ''nhoj'', r_target_id = ''elgoog'',
         r_relation_type = ''WORKS_AT'', r_strength = 0.7, r_context = ''John works at Google'',
         r_created_at = 1, r_last_reinforced = 1\<rparr>,
        \<lparr>r_id = ''TA_SKROW_ini'', r_source_id = ''nhoj'', r_target_id = ''hcetini'',
         r_relation_type = ''WORKS_AT'', r_strength = 0.7, r_context = ''John works at Initech'',
         r_created_at = 2, r_last_reinforced = 2\<rparr>],
     memories =
       [\<lparr>m_id = ''0.1elgooG ta'', m_content = ''John works at Google'',
         m_entities = [''nhoj'', ''skrow nhoj'', ''elgoog ta'', ''elgoog''],
         m_relationships = [''TA_SKROW_goo''], m_timestamp = 1, m_context_tags = [],
         m_importance = 0.82\<rparr>,
        \<lparr>m_id = ''0.2hcetinI t'', m_content = ''John works at Initech'',
         m_entities = [''nhoj'', ''skrow nhoj'', ''hcetini ta''],
         m_relationships = [''TA_SKROW_ini''], m_timestamp = 2, m_context_tags = [],
         m_importance = 0.821\<rparr>]\<rparr>"
  unfolding db_two_def db_google_eq by (simp add: eval_defs)


section \<open>Memory importance\<close>

text \<open>
  C3. The importance of a memory is \<open>0.5 + min (0.1 * entityCount) 0.3 +
  min (contentLength / 1000) 0.2\<close>; it lies between 0.5 and 1.0; the entity term
  is at its cap 0.3 exactly when there are at least 3 entity ids, and the length term is
  at its cap 0.2 exactly when the content has at least 200 characters.
\<close>

theorem memory_importance_formula_and_bounds:
  "calculate_memory_importance content ents =
     0.5 + min (0.1 * real (length ents)) 0.3 + min (real (length content) / 1000) 0.2
   \<and> 0.5 \<le> calculate_memory_importance content ents
   \<and> calculate_memory_importance content ents \<le> 1.0
   \<and> (min (0.1 * real (length ents)) 0.3 = 0.3) = (3 \<le> length ents)
   \<and> (min (real (length content) / 1000) 0.2 = 0.2) = (200 \<le> length content)"
proof -
  have a: "(min (0.1 * real (length ents)) 0.3 = 0.3) = (3 \<le> length ents)"
    by (auto simp: min_def)
  have b: "(min (real (length content) / 1000) 0.2 = 0.2) = (200 \<le> length content)"
    by (auto simp: min_def)
  have c: "0 \<le> min (0.1 * real (length ents)) 0.3" "min (0.1 * real (length ents)) 0.3 \<le> 0.3"
    by (auto simp: min_def)
  have d: "0 \<le> min (real (length content) / 1000) 0.2"
    "min (real (length content) / 1000) 0.2 \<le> 0.2"
    by (auto simp: min_def)
  have e: "calculate_memory_importance content ents =
     0.5 + min (0.1 * real (length ents)) 0.3 + min (real (length content) / 1000) 0.2"
    by (simp add: calculate_memory_importance_def mult.commute)
  from a b c d e show ?thesis by linarith
qed

theorem memory_importance_formula_and_bounds_witness:
  "calculate_memory_importance ''John works at Google''
     [''nhoj'', ''skrow nhoj'', ''elgoog ta'', ''elgoog''] = 0.82"
  using memory_importance_formula_and_bounds
    [of "''John works at Google''" "[''nhoj'', ''skrow nhoj'', ''elgoog ta'', ''elgoog'']"]
  by simp

section \<open>Termination of the fallback\<close>

text \<open>
  C5, as the code has it. For every database and every name, the fallback recursion of
  \<open>get_entity_network\<close> ends: the relation between a name and the name the call
  recurses on is well-founded, each step lowers a rank that is at most twice the number
  of entity rows. A step goes to the name of a stored entity that the pattern
  \<open>%name%\<close> matches and that differs from the name in lower case, and the two
  calls return the same. When the name has no wildcard character (\<open>%\<close>, \<open>_\<close>)
  and no character with code 0, the matched name contains it, both in lower case, and is
  strictly longer.
\<close>

theorem fallback_terminates:
  "wf {(q', q). fallback_target L db q = Some q'}
   \<and> (\<forall>q q'. fallback_target L db q = Some q' \<longrightarrow>
         get_entity_network L q depth db = get_entity_network L q' depth db
       \<and> fallback_rank db q' < fallback_rank db q
       \<and> fallback_rank db q \<le> 2 * length (entities db)
       \<and> q' \<in> e_name ` set (entities db)
       \<and> sql_like (lower (''%'' @ lower q @ ''%'')) (lower q')
       \<and> lower q' \<noteq> lower q
       \<and> (wildcard_free q \<longrightarrow> contains (lower q) (lower q') \<and> length q < length q'))"
proof (intro conjI allI impI)
  have "{(q', q). fallback_target L db q = Some q'} \<subseteq> measure (fallback_rank db)"
    by (auto dest: fallback_target_rank)
  then show "wf {(q', q). fallback_target L db q = Some q'}"
    by (rule wf_subset [OF wf_measure])
next
  fix q q' assume t: "fallback_target L db q = Some q'"
  show "get_entity_network L q depth db = get_entity_network L q' depth db"
    by (subst get_entity_network_unfold) (simp add: t)
  show "fallback_rank db q' < fallback_rank db q" by (rule fallback_target_rank [OF t])
  show "fallback_rank db q \<le> 2 * length (entities db)" by (rule fallback_rank_bound)
  show "q' \<in> e_name ` set (entities db)" by (rule fallback_target_match [OF t])
  show l: "sql_like (lower (''%'' @ lower q @ ''%'')) (lower q')" by (rule fallback_target_match [OF t])
  show ne: "lower q' \<noteq> lower q" by (rule fallback_target_match [OF t])
  { assume w: "wildcard_free q"
    from l have "contains (lower q) (lower (c_string q'))"
      using contains_like [OF w, of q'] by simp
    then have c: "contains (lower q) (lower q')"
      by (rule contains_c_string)
    then show "contains (lower q) (lower q')" .
    from c ne show "length q < length q'"
      using contains_length [OF c] contains_same_length [OF c] by (cases "length q = length q'") auto
  }
qed

theorem fallback_terminates_witness:
  "fallback_target demo_lib db_google ''Jo'' = Some ''John''
   \<and> wildcard_free ''Jo''
   \<and> get_entity_network demo_lib ''Jo'' 2 db_google
       = get_entity_network demo_lib ''John'' 2 db_google
   \<and> contains (lower ''Jo'') (lower ''John'')
   \<and> length ''Jo'' < length ''John''"
proof -
  have t: "fallback_target demo_lib db_google ''Jo'' = Some ''John''"
    unfolding db_google_eq
    by (simp add: fallback_target_def select_entity_relationships_def
          select_partial_matches_def partial_matches_def like_pattern_limit_def
          sql_like_def c_string_def demo_lib_def lower_char_def)
  have w: "wildcard_free ''Jo''"
    by (simp add: wildcard_free_def)
  from fallback_terminates [of demo_lib db_google 2] t w show ?thesis
    by blast
qed

text \<open>
  The name \<open>J_hn\<close> has no direct relationship in \<open>db_google\<close>; the pattern
  \<open>%j_hn%\<close> matches \<open>John\<close>, so the call recurses on \<open>John\<close>, which
  does not contain \<open>j_hn\<close> and is not longer.
\<close>

theorem fallback_substring_counterexample:
  "fallback_target demo_lib db_google ''J_hn'' = Some ''John''
   \<and> \<not> contains (lower ''J_hn'') (lower ''John'')
   \<and> \<not> length ''J_hn'' < length ''John''"
  unfolding db_google_eq
  by (simp add: fallback_target_def select_entity_relationships_def
        select_partial_matches_def partial_matches_def like_pattern_limit_def
        sql_like_def c_string_def demo_lib_def lower_char_def)

section \<open>Queries leave the database as it is\<close>

lemma find_related_memories_db: "snd (find_related_memories L query limit db) = db"
  by (simp add: find_related_memories_def execute_query_def Let_def)

text \<open>
  C10. \<open>find_related_memories\<close> and \<open>get_entity_network\<close> (and the two
  methods of \<open>ContextualMemorySystem\<close> that call them) return the database they
  were given: no entity, relationship or memory row changes. Extraction on the query
  text is a function of the text alone.
\<close>

theorem queries_read_only:
  "snd (find_related_memories L query limit db) = db
   \<and> snd (get_entity_network L entity_name depth db) = db
   \<and> snd (query_memory L query limit db) = db
   \<and> snd (explore_entity L entity_name db) = db"
  by (simp add: find_related_memories_db get_entity_network_db query_memory_def explore_entity_def)

theorem queries_read_only_witness:
  "snd (find_related_memories demo_lib ''John works'' 5 db_two) = db_two
   \<and> snd (get_entity_network demo_lib ''J_hn'' 2 db_two) = db_two"
  using queries_read_only [of demo_lib "''John works''" 5 db_two "''J_hn''" 2]
  by simp

section \<open>The network of a name that matches nothing\<close>

lemma in_select_entity_relationships:
  "(r, sn, tn) \<in> set (select_entity_relationships entity_id db) \<longleftrightarrow>
     r \<in> set (relationships db)
     \<and> (r_source_id r = entity_id \<or> r_target_id r = entity_id)
     \<and> (\<exists>e1 \<in> set (entities db). e_id e1 = r_source_id r \<and> e_name e1 = sn)
     \<and> (\<exists>e2 \<in> set (entities db). e_id e2 = r_target_id r \<and> e_name e2 = tn)"
  unfolding select_entity_relationships_def
  by (auto split: if_splits simp: Bex_def)

lemma select_entity_relationships_Nil:
  assumes "incident_relationships entity_id db = []"
  shows "select_entity_relationships entity_id db = []"
proof (cases "select_entity_relationships entity_id db")
  case Nil
  then show ?thesis .
next
  case (Cons x xs)
  obtain r sn tn where "x = (r, sn, tn)" by (cases x) auto
  with Cons have "(r, sn, tn) \<in> set (select_entity_relationships entity_id db)" by simp
  then have "r \<in> set (incident_relationships entity_id db)"
    by (auto simp: in_select_entity_relationships incident_relationships_def)
  with assms show ?thesis by simp
qed

lemma partial_matches_Nil:
  assumes "wildcard_free q" and "substring_matches q db = []"
  shows "partial_matches (CHR ''%'' # lower q @ ''%'') db = []"
proof -
  have "\<not> name_like q e" if "e \<in> set (entities db)" for e
  proof -
    from assms(2) that have "\<not> contains (lower q) (lower (e_name e))"
      by (auto simp: substring_matches_def filter_empty_conv)
    then have "\<not> contains (lower q) (lower (c_string (e_name e)))"
      using contains_c_string by blast
    then show ?thesis
      using contains_like [OF assms(1), of "e_name e"] by (simp add: name_like_def)
  qed
  then show ?thesis
    by (simp add: partial_matches_filter filter_empty_conv)
qed

lemma network_john_google:
  "get_entity_network demo_lib ''John'' 2 db_google =
     (Inr \<lparr>n_center_entity = ''John'',
           n_relationships =
             [\<lparr>rd_source = Real 1, rd_target = Text ''John'', rd_type = Text ''WORKS_AT'',
               rd_strength = Real 0.7, rd_context = Text ''John works at Google''\<rparr>],
           n_connected_entities = {Text ''John'', Real 1}\<rparr>, db_google)"
  apply (subst get_entity_network_unfold)
  unfolding db_google_eq
  apply (simp add: fallback_target_def select_entity_relationships_def demo_lib_def
      lower_char_def rel_data_of_def)
  done

text \<open>
  C8, as the code has it. For every name without a wildcard character (\<open>%\<close>,
  \<open>_\<close>) and without the character with code 0, whose pattern \<open>%name%\<close> is
  within the length that \<open>LIKE\<close> accepts, that has no incident relationship and
  that no stored entity name contains (both in lower case), \<open>get_entity_network\<close>
  returns the network with that name as centre, no relationships and no connected
  entities; it raises no exception.
\<close>

theorem no_match_empty_network:
  assumes "wildcard_free entity_name"
      and "length (''%'' @ lower entity_name @ ''%'') \<le> like_pattern_limit"
      and "incident_relationships (generate_id L (lower entity_name)) db = []"
      and "substring_matches entity_name db = []"
  shows "get_entity_network L entity_name depth db =
           (Inr \<lparr>n_center_entity = entity_name, n_relationships = [],
                 n_connected_entities = {}\<rparr>, db)"
proof -
  have r: "select_entity_relationships (take 12 (md5_hexdigest L (lower entity_name))) db = []"
    using select_entity_relationships_Nil assms(3) by (simp add: generate_id_def)
  have "partial_matches (CHR ''%'' # lower entity_name @ ''%'') db = []"
    by (rule partial_matches_Nil [OF assms(1) assms(4)])
  then have m: "select_partial_matches (CHR ''%'' # lower entity_name @ ''%'') db = Inr []"
    using assms(2) by (simp add: select_partial_matches_def)
  have "fallback_target L db entity_name = None"
    by (simp add: fallback_target_def r m)
  then show ?thesis
    by (subst get_entity_network_unfold) (simp add: r m)
qed

theorem no_match_empty_network_witness:
  "wildcard_free ''Nonexistent''
   \<and> length (''%'' @ lower ''Nonexistent'' @ ''%'') \<le> like_pattern_limit
   \<and> incident_relationships (generate_id demo_lib (lower ''Nonexistent'')) db_google = []
   \<and> substring_matches ''Nonexistent'' db_google = []
   \<and> get_entity_network demo_lib ''Nonexistent'' 2 db_google =
       (Inr \<lparr>n_center_entity = ''Nonexistent'', n_relationships = [],
             n_connected_entities = {}\<rparr>, db_google)"
proof -
  have w: "wildcard_free ''Nonexistent''"
    by (simp add: wildcard_free_def)
  have l: "length (''%'' @ lower ''Nonexistent'' @ ''%'') \<le> like_pattern_limit"
    by (simp add: like_pattern_limit_def)
  have i: "incident_relationships (generate_id demo_lib (lower ''Nonexistent'')) db_google = []"
    unfolding db_google_eq
    by (simp add: incident_relationships_def generate_id_def demo_lib_def lower_char_def)
  have s: "substring_matches ''Nonexistent'' db_google = []"
    unfolding db_google_eq
    by (simp add: substring_matches_def lower_char_def)
  from no_match_empty_network [OF w l i s, of 2] w l i s show ?thesis by simp
qed

text \<open>
  Without the condition on wildcards the statement fails: \<open>J_hn\<close> has no incident
  relationship in \<open>db_google\<close> and no entity name contains \<open>j_hn\<close>, but the
  pattern \<open>%j_hn%\<close> matches \<open>John\<close> and the network returned is that of
  \<open>John\<close>.
\<close>

theorem no_match_wildcard_counterexample:
  "incident_relationships (generate_id demo_lib (lower ''J_hn'')) db_google = []
   \<and> substring_matches ''J_hn'' db_google = []
   \<and> fst (get_entity_network demo_lib ''J_hn'' 2 db_google)
     = Inr \<lparr>n_center_entity = ''John'',
             n_relationships =
               [\<lparr>rd_source = Real 1, rd_target = Text ''John'', rd_type = Text ''WORKS_AT'',
                 rd_strength = Real 0.7, rd_context = Text ''John works at Google''\<rparr>],
             n_connected_entities = {Text ''John'', Real 1}\<rparr>"
proof -
  have i: "incident_relationships (generate_id demo_lib (lower ''J_hn'')) db_google = []"
    unfolding db_google_eq
    by (simp add: incident_relationships_def generate_id_def demo_lib_def lower_char_def)
  have s: "substring_matches ''J_hn'' db_google = []"
    unfolding db_google_eq
    by (simp add: substring_matches_def lower_char_def)
  have t: "fallback_target demo_lib db_google ''J_hn'' = Some ''John''"
    unfolding db_google_eq
    by (simp add: fallback_target_def select_entity_relationships_def
          select_partial_matches_def partial_matches_def like_pattern_limit_def
          sql_like_def c_string_def demo_lib_def lower_char_def)
  have "get_entity_network demo_lib ''J_hn'' 2 db_google
          = get_entity_network demo_lib ''John'' 2 db_google"
    by (subst get_entity_network_unfold) (simp add: t)
  with i s show ?thesis by (simp add: network_john_google)
qed


section \<open>The network of a name with relationships\<close>









section \<open>What \<open>add_memory\<close> returns\<close>

text \<open>
  C7, as the code has it. \<open>add_memory\<close> returns the text
  \<open>Memory stored with ID: \<close> followed by the id of the memory that
  \<open>weave_memory\<close> made and stored, and leaves the database that \<open>weave_memory\<close>
  leaves; the id is the digest of the content followed by the time.
\<close>

theorem add_memory_returns_message:
  "fst (add_memory L content context_tags t db)
     = ''Memory stored with ID: '' @ m_id (fst (weave_memory L content context_tags t db))
   \<and> snd (add_memory L content context_tags t db)
     = snd (weave_memory L content context_tags t db)
   \<and> m_id (fst (weave_memory L content context_tags t db))
     = generate_id L (content @ str_float L t)
   \<and> fst (weave_memory L content context_tags t db)
     \<in> set (memories (snd (weave_memory L content context_tags t db)))"
  by (simp add: add_memory_def weave_memory_def store_memory_def insert_or_replace_def
        Let_def case_prod_beta)

theorem add_memory_returns_message_witness:
  "fst (add_memory demo_lib ''hello'' None 1 init_database) = ''Memory stored with ID: 0.1olleh''"
  using add_memory_returns_message [of demo_lib "''hello''" None 1 init_database]
  by (simp add: generate_id_def demo_lib_def)


text \<open>The value returned is not the id itself.\<close>

theorem add_memory_not_id_counterexample:
  "fst (add_memory demo_lib ''hello'' None 1 init_database)
     \<noteq> m_id (fst (weave_memory demo_lib ''hello'' None 1 init_database))"
  by (simp add: eval_defs)



section \<open>Weaving keeps the tables well formed\<close>

lemma fst_get_entity:
  "fst (get_entity entity_id db) =
     (case filter (\<lambda>e. e_id e = entity_id) (entities db) of [] \<Rightarrow> None | row # _ \<Rightarrow> Some row)"
  by (simp add: get_entity_def execute_query_def)

lemma get_entity_Some:
  "fst (get_entity entity_id db) = Some ent \<Longrightarrow> ent \<in> set (entities db) \<and> e_id ent = entity_id"
  by (auto simp: fst_get_entity split: list.splits dest: filter_eq_ConsD)

lemma weave_entity_entities:
  "entities (snd (weave_entity L t (n, ty, c) db)) =
     insert_or_replace e_id
       (case fst (get_entity (generate_id L (lower n)) db) of
          Some ent \<Rightarrow> ent\<lparr>e_last_accessed := t, e_access_count := e_access_count ent + 1,
                         e_importance_score := e_importance_score ent + 0.1\<rparr>
        | None \<Rightarrow> \<lparr>e_id = generate_id L (lower n), e_name = n, e_type = ty,
                    e_properties = [(''contexts'', [c])], e_created_at = t,
                    e_last_accessed = t, e_access_count = 1, e_importance_score = 0.5\<rparr>)
       (entities db)"
  by (simp add: get_entity_def execute_query_def store_entity_def Let_def split: list.splits)

lemma weave_entity_frame:
  "relationships (snd (weave_entity L t x db)) = relationships db"
  "memories (snd (weave_entity L t x db)) = memories db"
  by (cases x; simp add: get_entity_def execute_query_def store_entity_def Let_def
        split: list.splits)+

lemma weave_entity_fst: "fst (weave_entity L t (n, ty, c) db) = generate_id L (lower n)"
  by (simp add: get_entity_def execute_query_def Let_def split: list.splits)

lemma upserted_id:
  "e_id (case fst (get_entity (generate_id L (lower n)) db) of
          Some ent \<Rightarrow> ent\<lparr>e_last_accessed := t, e_access_count := e_access_count ent + 1,
                         e_importance_score := e_importance_score ent + 0.1\<rparr>
        | None \<Rightarrow> \<lparr>e_id = generate_id L (lower n), e_name = n, e_type = ty,
                    e_properties = [(''contexts'', [c])], e_created_at = t,
                    e_last_accessed = t, e_access_count = 1, e_importance_score = 0.5\<rparr>)
     = generate_id L (lower n)"
  by (auto split: option.splits dest: get_entity_Some)

lemma get_entity_insert_or_replace:
  "e_id ent = entity_id \<Longrightarrow>
   (case filter (\<lambda>e. e_id e = entity_id) (insert_or_replace e_id ent rows) of
      [] \<Rightarrow> None | row # _ \<Rightarrow> Some row) = Some ent"
  by (simp add: insert_or_replace_def filter_empty_conv [THEN iffD2] cong: conj_cong)

lemma count_insert_or_replace:
  "length (filter (\<lambda>e. e_id e = e_id ent) (insert_or_replace e_id ent rows)) = 1"
  by (simp add: insert_or_replace_def filter_empty_conv [THEN iffD2] cong: conj_cong)

lemma others_insert_or_replace:
  "filter (\<lambda>e. e_id e \<noteq> e_id ent) (insert_or_replace e_id ent rows)
     = filter (\<lambda>e. e_id e \<noteq> e_id ent) rows"
  by (simp add: insert_or_replace_def)

lemma weave_entity_ok:
  assumes "entity_table_ok L db"
  shows "entity_table_ok L (snd (weave_entity L t x db))"
proof -
  obtain n ty c where x: "x = (n, ty, c)" by (cases x) auto
  let ?new = "case fst (get_entity (generate_id L (lower n)) db) of
          Some ent \<Rightarrow> ent\<lparr>e_last_accessed := t, e_access_count := e_access_count ent + 1,
                         e_importance_score := e_importance_score ent + 0.1\<rparr>
        | None \<Rightarrow> \<lparr>e_id = generate_id L (lower n), e_name = n, e_type = ty,
                    e_properties = [(''contexts'', [c])], e_created_at = t,
                    e_last_accessed = t, e_access_count = 1, e_importance_score = 0.5\<rparr>"
  have id: "e_id ?new = generate_id L (lower n)" by (rule upserted_id)
  have nm: "e_id ?new = generate_id L (lower (e_name ?new))"
    using assms
    by (auto split: option.splits dest!: get_entity_Some
          simp: entity_table_ok_def list_all_iff)
  have d: "distinct (map e_id (insert_or_replace e_id ?new (entities db)))"
    using assms
    by (auto simp: insert_or_replace_def entity_table_ok_def distinct_map_filter)
  have a: "list_all (\<lambda>e. e_id e = generate_id L (lower (e_name e)))
             (insert_or_replace e_id ?new (entities db))"
    using assms nm
    by (auto simp: insert_or_replace_def entity_table_ok_def list_all_iff)
  show ?thesis
    unfolding x entity_table_ok_def weave_entity_entities using d a by simp
qed

lemma weave_entities_Cons:
  "weave_entities L t (x # xs) acc db =
     weave_entities L t xs (acc @ [fst (weave_entity L t x db)]) (snd (weave_entity L t x db))"
  by (simp add: case_prod_beta del: weave_entity.simps)

lemma weave_entities_ok:
  "entity_table_ok L db \<Longrightarrow> entity_table_ok L (snd (weave_entities L t xs acc db))"
proof (induction xs arbitrary: acc db)
  case Nil
  then show ?case by simp
next
  case (Cons x xs)
  show ?case
    unfolding weave_entities_Cons
    by (rule Cons.IH) (rule weave_entity_ok [OF Cons.prems])
qed

lemma weave_entities_frame:
  "relationships (snd (weave_entities L t xs acc db)) = relationships db"
proof (induction xs arbitrary: acc db)
  case Nil
  then show ?case by simp
next
  case (Cons x xs)
  show ?case
    unfolding weave_entities_Cons by (simp only: Cons.IH weave_entity_frame)
qed

lemma weave_relationship_snd:
  "snd (weave_relationship L t (src, tgt, ty, c) db) =
     store_relationship
       \<lparr>r_id = generate_id L (generate_id L (lower src) @ ''_'' @ generate_id L (lower tgt)
                                @ ''_'' @ ty),
        r_source_id = generate_id L (lower src), r_target_id = generate_id L (lower tgt),
        r_relation_type = ty, r_strength = 0.7, r_context = c,
        r_created_at = t, r_last_reinforced = t\<rparr> db"
  by (simp add: Let_def)

lemma weave_relationship_ok:
  "strengths_ok db \<Longrightarrow> strengths_ok (snd (weave_relationship L t x db))"
  by (cases x)
     (auto simp: Let_def strengths_ok_def store_relationship_def insert_or_replace_def
        list_all_iff)

lemma weave_relationship_entities:
  "entities (snd (weave_relationship L t x db)) = entities db"
  by (cases x) (simp add: Let_def store_relationship_def)

lemma weave_relationships_Cons:
  "weave_relationships L t (x # xs) acc db =
     weave_relationships L t xs (acc @ [fst (weave_relationship L t x db)])
       (snd (weave_relationship L t x db))"
  by (simp add: case_prod_beta del: weave_relationship.simps)

lemma weave_relationships_ok:
  "strengths_ok db \<Longrightarrow> strengths_ok (snd (weave_relationships L t xs acc db))"
proof (induction xs arbitrary: acc db)
  case Nil
  then show ?case by simp
next
  case (Cons x xs)
  show ?case
    unfolding weave_relationships_Cons
    by (rule Cons.IH) (rule weave_relationship_ok [OF Cons.prems])
qed

lemma weave_relationships_entities:
  "entities (snd (weave_relationships L t xs acc db)) = entities db"
proof (induction xs arbitrary: acc db)
  case Nil
  then show ?case by simp
next
  case (Cons x xs)
  show ?case
    unfolding weave_relationships_Cons by (simp only: Cons.IH weave_relationship_entities)
qed

lemma snd_weave_memory:
  "snd (weave_memory L content tags t db) =
     store_memory (fst (weave_memory L content tags t db))
       (snd (weave_relationships L t
               (extract_relationships L content (map fst (extract_entities L content))) []
               (snd (weave_entities L t (extract_entities L content) [] db))))"
  by (simp add: weave_memory_def Let_def case_prod_beta)

lemma weave_memory_ok:
  assumes "entity_table_ok L db" and "strengths_ok db"
  shows "entity_table_ok L (snd (weave_memory L content tags t db))"
    and "strengths_ok (snd (weave_memory L content tags t db))"
proof -
  let ?db1 = "snd (weave_entities L t (extract_entities L content) [] db)"
  let ?db2 = "snd (weave_relationships L t
               (extract_relationships L content (map fst (extract_entities L content))) [] ?db1)"
  have e1: "entity_table_ok L ?db1" by (rule weave_entities_ok [OF assms(1)])
  have s1: "strengths_ok ?db1"
    using assms(2) by (simp add: strengths_ok_def weave_entities_frame)
  have e2: "entity_table_ok L ?db2"
    using e1 by (simp add: entity_table_ok_def weave_relationships_entities)
  have s2: "strengths_ok ?db2" by (rule weave_relationships_ok [OF s1])
  show "entity_table_ok L (snd (weave_memory L content tags t db))"
    unfolding snd_weave_memory using e2 by (simp add: entity_table_ok_def store_memory_def)
  show "strengths_ok (snd (weave_memory L content tags t db))"
    unfolding snd_weave_memory using s2 by (simp add: strengths_ok_def store_memory_def)
qed

lemma reachable_ok: "reachable L db \<Longrightarrow> entity_table_ok L db \<and> strengths_ok db"
proof (induction rule: reachable.induct)
  case reachable_init
  show ?case by (simp add: entity_table_ok_def strengths_ok_def init_database_def)
next
  case (reachable_add db content tags t)
  have "snd (add_memory L content tags t db) = snd (weave_memory L content tags t db)"
    by (simp add: add_memory_def case_prod_beta)
  with reachable_add.IH weave_memory_ok [of L db content tags t] show ?case by simp
next
  case (reachable_query db query limit)
  then show ?case by (simp add: query_memory_def find_related_memories_db)
next
  case (reachable_explore db entity_name)
  then show ?case by (simp add: explore_entity_def get_entity_network_db)
qed

lemma entity_table_ok_names:
  assumes "entity_table_ok L db"
  shows "distinct (map (\<lambda>e. lower (e_name e)) (entities db))"
proof -
  from assms have "map e_id (entities db)
      = map (generate_id L) (map (\<lambda>e. lower (e_name e)) (entities db))"
    by (auto simp: entity_table_ok_def list_all_iff)
  moreover from assms have "distinct (map e_id (entities db))"
    by (simp add: entity_table_ok_def)
  ultimately show ?thesis by (metis distinct_map)
qed

section \<open>Entity upsert\<close>

text \<open>
  C1. One mention of a name \<open>n\<close> (one round of the first loop of
  \<open>weave_memory\<close>) returns the id of the name in lower case. If an entity row
  with that id is stored, the row stored under the id afterwards is that row with
  \<open>last_accessed\<close> set to the current time, \<open>access_count\<close> one higher and
  \<open>importance_score\<close> 0.1 higher; otherwise it is a new row with
  \<open>access_count\<close> 1, \<open>importance_score\<close> 0.5, the context as the only
  element of \<open>contexts\<close> and both times set to the current time. Afterwards
  exactly one row has the id and the rows with other ids are as before. In every
  database the system can reach, no two entity rows have the same name in lower case.
\<close>

theorem entity_upsert:
  "fst (weave_entity L t (n, ty, c) db) = generate_id L (lower n)
   \<and> fst (get_entity (generate_id L (lower n)) (snd (weave_entity L t (n, ty, c) db)))
     = Some (case fst (get_entity (generate_id L (lower n)) db) of
               Some ent \<Rightarrow> ent\<lparr>e_last_accessed := t, e_access_count := e_access_count ent + 1,
                              e_importance_score := e_importance_score ent + 0.1\<rparr>
             | None \<Rightarrow> \<lparr>e_id = generate_id L (lower n), e_name = n, e_type = ty,
                         e_properties = [(''contexts'', [c])], e_created_at = t,
                         e_last_accessed = t, e_access_count = 1, e_importance_score = 0.5\<rparr>)
   \<and> length (filter (\<lambda>e. e_id e = generate_id L (lower n))
               (entities (snd (weave_entity L t (n, ty, c) db)))) = 1
   \<and> filter (\<lambda>e. e_id e \<noteq> generate_id L (lower n))
        (entities (snd (weave_entity L t (n, ty, c) db)))
     = filter (\<lambda>e. e_id e \<noteq> generate_id L (lower n)) (entities db)
   \<and> (reachable L db \<longrightarrow> distinct (map (\<lambda>e. lower (e_name e)) (entities db)))"
proof -
  let ?new = "case fst (get_entity (generate_id L (lower n)) db) of
          Some ent \<Rightarrow> ent\<lparr>e_last_accessed := t, e_access_count := e_access_count ent + 1,
                         e_importance_score := e_importance_score ent + 0.1\<rparr>
        | None \<Rightarrow> \<lparr>e_id = generate_id L (lower n), e_name = n, e_type = ty,
                    e_properties = [(''contexts'', [c])], e_created_at = t,
                    e_last_accessed = t, e_access_count = 1, e_importance_score = 0.5\<rparr>"
  have id: "e_id ?new = generate_id L (lower n)" by (rule upserted_id)
  have a: "fst (weave_entity L t (n, ty, c) db) = generate_id L (lower n)"
    by (rule weave_entity_fst)
  have b: "fst (get_entity (generate_id L (lower n)) (snd (weave_entity L t (n, ty, c) db)))
             = Some ?new"
    by (simp only: fst_get_entity [of _ "snd (weave_entity L t (n, ty, c) db)"]
          weave_entity_entities get_entity_insert_or_replace [OF id])
  have c: "length (filter (\<lambda>e. e_id e = generate_id L (lower n))
               (entities (snd (weave_entity L t (n, ty, c) db)))) = 1"
    unfolding weave_entity_entities using count_insert_or_replace [of ?new "entities db"]
    by (simp only: id)
  have d: "filter (\<lambda>e. e_id e \<noteq> generate_id L (lower n))
        (entities (snd (weave_entity L t (n, ty, c) db)))
     = filter (\<lambda>e. e_id e \<noteq> generate_id L (lower n)) (entities db)"
    unfolding weave_entity_entities using others_insert_or_replace [of ?new "entities db"]
    by (simp only: id)
  have e: "reachable L db \<longrightarrow> distinct (map (\<lambda>e. lower (e_name e)) (entities db))"
    using reachable_ok entity_table_ok_names by blast
  from a b c d e show ?thesis by blast
qed

theorem entity_upsert_witness:
  "reachable demo_lib db_google
   \<and> fst (get_entity (generate_id demo_lib (lower ''JOHN''))
           (snd (weave_entity demo_lib 2 (''JOHN'', ''PERSON'', ''JOHN again'') db_google)))
     = Some \<lparr>e_id = ''nhoj'', e_name = ''John'', e_type = ''PERSON'',
              e_properties = [(''contexts'', [''John works at Google''])],
              e_created_at = 1, e_last_accessed = 2, e_access_count = 2,
              e_importance_score = 0.6\<rparr>
   \<and> length (filter (\<lambda>e. e_id e = generate_id demo_lib (lower ''JOHN''))
               (entities (snd (weave_entity demo_lib 2 (''JOHN'', ''PERSON'', ''JOHN again'')
                                 db_google)))) = 1
   \<and> distinct (map (\<lambda>e. lower (e_name e)) (entities db_google))"
proof -
  have r: "reachable demo_lib db_google"
    unfolding db_google_def by (rule reachable_add [OF reachable_init])
  have g: "fst (get_entity (generate_id demo_lib (lower ''JOHN'')) db_google)
             = Some \<lparr>e_id = ''nhoj'', e_name = ''John'', e_type = ''PERSON'',
                      e_properties = [(''contexts'', [''John works at Google''])],
                      e_created_at = 1, e_last_accessed = 1, e_access_count = 1,
                      e_importance_score = 0.5\<rparr>"
    unfolding db_google_eq
    by (simp add: fst_get_entity generate_id_def demo_lib_def lower_char_def)
  from entity_upsert [of demo_lib 2 "''JOHN''" "''PERSON''" "''JOHN again''" db_google] r g
  show ?thesis by simp
qed

section \<open>Relationship strength\<close>

lemma sorted_map_const:
  "\<forall>x \<in> set xs. f x = (k :: real) \<Longrightarrow> sorted (map f xs)"
  by (induction xs) auto

text \<open>
  C9. In every database the system can reach, every relationship row has strength
  0.7. So the ordering by strength in the query of \<open>get_entity_network\<close> never
  tells two relationships apart: any two rows of the query have the same strength, and
  sorting rows of the database's relationships by strength changes nothing, whatever
  order they are in.
\<close>

theorem strength_constant:
  "reachable L db \<Longrightarrow>
     (\<forall>r \<in> set (relationships db). r_strength r = 0.7)
   \<and> (\<forall>x \<in> set (select_entity_relationships entity_id db).
        \<forall>y \<in> set (select_entity_relationships entity_id db).
          r_strength (fst x) = r_strength (fst y))
   \<and> (\<forall>rows :: (relationship \<times> string \<times> string) list. fst ` set rows \<subseteq> set (relationships db) \<longrightarrow>
          sort_key (\<lambda>(r, source_name, target_name). - r_strength r) rows = rows)"
proof -
  assume "reachable L db"
  then have s: "\<forall>r \<in> set (relationships db). r_strength r = 0.7"
    using reachable_ok by (auto simp: strengths_ok_def list_all_iff)
  have q: "\<forall>x \<in> set (select_entity_relationships entity_id db). r_strength (fst x) = 0.7"
  proof
    fix x assume x: "x \<in> set (select_entity_relationships entity_id db)"
    obtain r sn tn where "x = (r, sn, tn)" by (cases x) auto
    with x s show "r_strength (fst x) = 0.7"
      by (auto simp: in_select_entity_relationships)
  qed
  have n: "\<forall>rows :: (relationship \<times> string \<times> string) list. fst ` set rows \<subseteq> set (relationships db) \<longrightarrow>
          sort_key (\<lambda>(r, source_name, target_name). - r_strength r) rows = rows"
  proof (intro allI impI)
    fix rows :: "(relationship \<times> string \<times> string) list"
    assume sub: "fst ` set rows \<subseteq> set (relationships db)"
    have "\<forall>x \<in> set rows. (\<lambda>(r, source_name, target_name). - r_strength r) x = - 0.7"
      using s sub by (auto simp: case_prod_beta)
    then have "sorted (map (\<lambda>(r, source_name, target_name). - r_strength r) rows)"
      by (rule sorted_map_const)
    then show "sort_key (\<lambda>(r, source_name, target_name). - r_strength r) rows = rows"
      by (rule sort_key_id_if_sorted)
  qed
  from q have q2: "\<forall>x \<in> set (select_entity_relationships entity_id db).
        \<forall>y \<in> set (select_entity_relationships entity_id db).
          r_strength (fst x) = r_strength (fst y)"
    by metis
  from s q2 n show ?thesis by blast
qed

theorem strength_constant_witness:
  "reachable demo_lib db_two
   \<and> map r_strength (relationships db_two) = [0.7, 0.7]
   \<and> fst ` set [(last (relationships db_two), ''John'', ''Initech''),
                (hd (relationships db_two), ''John'', ''Google'')]
       \<subseteq> set (relationships db_two)
   \<and> sort_key (\<lambda>(r, source_name, target_name). - r_strength r)
       [(last (relationships db_two), ''John'', ''Initech''),
        (hd (relationships db_two), ''John'', ''Google'')]
     = [(last (relationships db_two), ''John'', ''Initech''),
        (hd (relationships db_two), ''John'', ''Google'')]"
proof -
  have "reachable demo_lib db_google"
    unfolding db_google_def by (rule reachable_add [OF reachable_init])
  then have r: "reachable demo_lib db_two"
    unfolding db_two_def by (rule reachable_add)
  have m: "map r_strength (relationships db_two) = [0.7, 0.7]"
    by (simp add: db_two_eq)
  have sub: "fst ` set [(last (relationships db_two), ''John'', ''Initech''),
                       (hd (relationships db_two), ''John'', ''Google'')]
       \<subseteq> set (relationships db_two)"
    by (simp add: db_two_eq)
  from strength_constant [OF r, of "''nhoj''"] sub
  have "sort_key (\<lambda>(r, source_name, target_name). - r_strength r)
       [(last (relationships db_two), ''John'', ''Initech''),
        (hd (relationships db_two), ''John'', ''Google'')]
     = [(last (relationships db_two), ''John'', ''Initech''),
        (hd (relationships db_two), ''John'', ''Google'')]"
    by blast
  with r m sub show ?thesis by blast
qed

section \<open>Repeated relationships\<close>

text \<open>
  C2. Weaving the text of \<open>db_google\<close> a second time, at time 2, leaves one
  relationship row for the triple, with the context and \<open>last_reinforced\<close> of the
  second call and strength 0.7; its \<open>created_at\<close> is 2 as well, not the time 1 of
  the first call: the row is built anew and replaces the stored one.
\<close>

theorem relationship_repeat_resets_created_at:
  "map r_created_at (relationships db_google) = [1]
   \<and> relationships (snd (add_memory demo_lib ''John works at Google'' None 2 db_google))
     = [\<lparr>r_id = ''TA_SKROW_goo'', r_source_id = ''nhoj'', r_target_id = ''elgoog'',
         r_relation_type = ''WORKS_AT'', r_strength = 0.7, r_context = ''John works at Google'',
         r_created_at = 2, r_last_reinforced = 2\<rparr>]"
  unfolding db_google_eq by (simp add: eval_defs)

section \<open>Related memories\<close>









lemma sm_score_scored_of [simp]: "sm_score (scored_of L query m) = total_score L query m"
  by (simp add: scored_of_def)









end
